theory Spec2Isabelle
  imports Complex_Main "HOL-Library.State_Monad"
begin

section \<open>JavaScript values used by Tooltip.js\<close>

text \<open>
  A JavaScript binding that may be absent: \<open>undefined\<close>, \<open>null\<close>, or a proper value.
  \<open>nullish v\<close> is the loose comparison \<open>v == null\<close>, \<open>coalesce v d\<close> is \<open>v ?? d\<close>.
  A default parameter (\<open>initialOpen = false\<close>) replaces \<open>undefined\<close> only; such a
  parameter is an \<open>option\<close> whose \<open>None\<close> is \<open>undefined\<close>.
\<close>

datatype 'a nullable = Undefined | Null | Val 'a

fun nullish :: "'a nullable \<Rightarrow> bool" where
  "nullish Undefined = True"
| "nullish Null = True"
| "nullish (Val v) = False"

fun coalesce :: "'a nullable \<Rightarrow> 'a \<Rightarrow> 'a" where
  "coalesce Undefined d = d"
| "coalesce Null d = d"
| "coalesce (Val v) d = v"

fun default_param :: "'a option \<Rightarrow> 'a \<Rightarrow> 'a" where
  "default_param None d = d"
| "default_param (Some v) d = v"

datatype error = Error string | TypeError string

text \<open>
  Functions and refs are compared by identity in JavaScript, so they are tokens here.
  \<open>SetUncontrolledOpen\<close> is the setter of the \<open>React.useState\<close> pair of \<open>useTooltip\<close>,
  \<open>Callback n\<close> a function supplied by the caller.
\<close>

datatype setter = SetUncontrolledOpen | Callback nat

datatype ref = SetReference nat | SetFloating nat | ArrowRef | UserRef nat | MergedRef nat

text \<open>
  Coordinates are finite JavaScript numbers. Every finite double is a rational, and
  \<open>Math.round\<close> of a finite number is the nearest integer, a tie going towards
  \<open>+\<infinity>\<close> (the \<open>-0\<close> that JavaScript returns on \<open>[-0.5, 0)\<close> is the
  integer \<open>0\<close>). \<open>NaN\<close> and the infinities are not coordinates.
\<close>

definition Math_round :: "rat \<Rightarrow> int" where
  "Math_round q = \<lfloor>q + 1 / 2\<rfloor>"

section \<open>Objects, elements and the React calls of the file\<close>

datatype css_value = CssStr string | CssNum rat

type_synonym style = "string \<Rightarrow> css_value option"

datatype floating_context = FloatingContext nat

datatype prop_value =
    VStr string
  | VNum rat
  | VBool bool
  | VStyle style
  | VRef "ref nullable"
  | VHandler nat
  | VContext floating_context

text \<open>
  An object of props maps keys to values; a spread \<open>{...a, ...b}\<close> is \<open>a ++ b\<close>, the
  later object winning on a shared key.
\<close>

type_synonym props = "string \<Rightarrow> prop_value option"

datatype node =
    NUndefined
  | NNull
  | NFalse
  | NText string
  | NElement string props "ref nullable" "node list"

fun isValidElement :: "node \<Rightarrow> bool" where
  "isValidElement (NElement tag p r ch) = True"
| "isValidElement n = False"

text \<open>
  \<open>React.createElement\<close>, which JSX compiles to: \<open>ref\<close> and \<open>key\<close> are taken out of
  the props, and an element without a ref has the ref \<open>null\<close>.
\<close>

definition createElement :: "string \<Rightarrow> props \<Rightarrow> node list \<Rightarrow> node" where
  "createElement tag config ch =
     NElement tag (config(''ref'' := None, ''key'' := None))
       (case config ''ref'' of Some (VRef (Val r)) \<Rightarrow> Val r | _ \<Rightarrow> Null) ch"

text \<open>
  \<open>React.cloneElement(element, config)\<close>: the element's props with \<open>config\<close> merged
  over them, the ref replaced when \<open>config.ref\<close> is not \<open>undefined\<close>. The file calls
  it on valid elements only (line 132), so the other nodes are left as they are.
\<close>

fun cloneElement :: "node \<Rightarrow> props \<Rightarrow> node" where
  "cloneElement (NElement tag p r ch) config =
     NElement tag (p ++ config(''ref'' := None, ''key'' := None))
       (case config ''ref'' of
          Some (VRef Undefined) \<Rightarrow> r
        | Some (VRef r') \<Rightarrow> r'
        | _ \<Rightarrow> r) ch"
| "cloneElement n config = n"

text \<open>
  \<open>children.ref\<close> (line 124): reading a property of \<open>undefined\<close> or \<open>null\<close> throws a
  TypeError; an element has its ref; a string or \<open>false\<close> has no such property.
\<close>

fun children_ref :: "node \<Rightarrow> error + ref nullable" where
  "children_ref NUndefined = Inl (TypeError ''Cannot read properties of undefined (reading ref)'')"
| "children_ref NNull = Inl (TypeError ''Cannot read properties of null (reading ref)'')"
| "children_ref (NElement tag p r ch) = Inr r"
| "children_ref n = Inr Undefined"

fun children_props :: "node \<Rightarrow> props" where
  "children_props (NElement tag p r ch) = p"
| "children_props n = Map.empty"

section \<open>The hooks of @floating-ui/react, as the file calls them\<close>

text \<open>
  The hooks are imported from the library and are not part of the file; a \<open>hooks\<close>
  record holds what each call returns, as a function of the arguments the file passes
  (a hook is taken to return, not to throw). A \<open>hook_call\<close> names a call with its
  arguments.
\<close>

datatype delay = DelayMs nat | DelayOpenClose "nat option" "nat option"

record delay_group =
  dg_delay :: delay
  dg_isInstantPhase :: bool
  dg_currentId :: "string nullable"

datatype middleware =
    Offset nat
  | Inline
  | Flip string bool
  | Shift nat
  | Arrow ref nat

record floating_options =
  fo_placement :: string
  fo_open :: bool
  fo_onOpenChange :: setter
  fo_whileElementsMounted :: string
  fo_middleware :: "middleware list"

record floating_data =
  fd_x :: "rat nullable"
  fd_y :: "rat nullable"
  fd_strategy :: string
  fd_setReference :: ref
  fd_setFloating :: ref
  fd_context :: floating_context

record hover_options =
  ho_move :: bool
  ho_enabled :: bool
  ho_restMs :: nat
  ho_delay :: delay

datatype interaction = Interaction nat

record prop_getters =
  getReferenceProps :: "props \<Rightarrow> props"
  getFloatingProps :: "props \<Rightarrow> props"
  getItemProps :: "props \<Rightarrow> props"

record transition_options =
  to_duration_open :: nat
  to_duration_close :: nat
  to_initial :: style

record transition_result =
  tr_isMounted :: bool
  tr_styles :: style

record hooks =
  useDelayGroupContext :: delay_group
  useFloating :: "floating_options \<Rightarrow> floating_data"
  useHover :: "floating_context \<Rightarrow> hover_options \<Rightarrow> interaction"
  useFocus :: "floating_context \<Rightarrow> bool \<Rightarrow> interaction"
  useDismiss :: "floating_context \<Rightarrow> interaction"
  useRole :: "floating_context \<Rightarrow> string \<Rightarrow> interaction"
  useInteractions :: "interaction list \<Rightarrow> prop_getters"
  useMergeRefs :: "ref nullable list \<Rightarrow> ref nullable"
  useId :: string
  useTransitionStyles :: "floating_context \<Rightarrow> transition_options \<Rightarrow> transition_result"

datatype hook_call =
    CallUseDelayGroupContext
  | CallUseState bool
  | CallUseRef
  | CallUseFloating floating_options
  | CallUseHover floating_context hover_options
  | CallUseFocus floating_context bool
  | CallUseDismiss floating_context
  | CallUseRole floating_context string
  | CallUseInteractions "interaction list"
  | CallUseMemo
  | CallUseContext
  | CallUseMergeRefs "ref nullable list"
  | CallUseId
  | CallUseDelayGroup floating_context string
  | CallUseTransitionStyles floating_context transition_options



text \<open>
  \<open>React.useState(initial)\<close>: the state cell of the component instance is empty on
  the first render, which seeds it with \<open>initial\<close>; later renders read the cell.
\<close>

fun useState :: "bool option \<Rightarrow> bool \<Rightarrow> bool" where
  "useState None initial = initial"
| "useState (Some v) initial = v"

section \<open>Calling a hook\<close>

text \<open>
  A render runs in the state monad over the log of the hook calls made so far:
  \<open>hook c result\<close> is the call \<open>c\<close>, which appends itself to the log and gives
  \<open>result\<close>. The components reach a hook through its \<open>call_\<close> function only.
  \<open>React.useState\<close> gives the pair of the state and its setter, \<open>React.useRef(null)\<close>
  the ref object that \<open>useTooltip\<close> names \<open>arrowRef\<close>, \<open>React.useMemo\<close> the value its
  function computes, and \<open>useDelayGroup\<close> nothing that is read.
\<close>

definition hook :: "hook_call \<Rightarrow> 'a \<Rightarrow> (hook_call list, 'a) state" where
  "hook c result = State (\<lambda>calls. (result, calls @ [c]))"

definition call_useDelayGroupContext :: "hooks \<Rightarrow> (hook_call list, delay_group) state" where
  "call_useDelayGroupContext h = hook CallUseDelayGroupContext (useDelayGroupContext h)"

definition call_useState :: "bool option \<Rightarrow> bool \<Rightarrow> (hook_call list, bool \<times> setter) state" where
  "call_useState cell initial =
     hook (CallUseState initial) (useState cell initial, SetUncontrolledOpen)"

definition call_useRef :: "(hook_call list, ref) state" where
  "call_useRef = hook CallUseRef ArrowRef"

definition call_useFloating :: "hooks \<Rightarrow> floating_options \<Rightarrow> (hook_call list, floating_data) state" where
  "call_useFloating h fo = hook (CallUseFloating fo) (useFloating h fo)"

definition call_useHover ::
  "hooks \<Rightarrow> floating_context \<Rightarrow> hover_options \<Rightarrow> (hook_call list, interaction) state" where
  "call_useHover h c ho = hook (CallUseHover c ho) (useHover h c ho)"

definition call_useFocus ::
  "hooks \<Rightarrow> floating_context \<Rightarrow> bool \<Rightarrow> (hook_call list, interaction) state" where
  "call_useFocus h c enabled = hook (CallUseFocus c enabled) (useFocus h c enabled)"

definition call_useDismiss :: "hooks \<Rightarrow> floating_context \<Rightarrow> (hook_call list, interaction) state" where
  "call_useDismiss h c = hook (CallUseDismiss c) (useDismiss h c)"

definition call_useRole ::
  "hooks \<Rightarrow> floating_context \<Rightarrow> string \<Rightarrow> (hook_call list, interaction) state" where
  "call_useRole h c r = hook (CallUseRole c r) (useRole h c r)"

definition call_useInteractions ::
  "hooks \<Rightarrow> interaction list \<Rightarrow> (hook_call list, prop_getters) state" where
  "call_useInteractions h is = hook (CallUseInteractions is) (useInteractions h is)"

definition call_useMemo :: "'a \<Rightarrow> (hook_call list, 'a) state" where
  "call_useMemo v = hook CallUseMemo v"

definition call_useMergeRefs ::
  "hooks \<Rightarrow> ref nullable list \<Rightarrow> (hook_call list, ref nullable) state" where
  "call_useMergeRefs h refs = hook (CallUseMergeRefs refs) (useMergeRefs h refs)"

definition call_useId :: "hooks \<Rightarrow> (hook_call list, string) state" where
  "call_useId h = hook CallUseId (useId h)"

definition call_useDelayGroup :: "floating_context \<Rightarrow> string \<Rightarrow> (hook_call list, unit) state" where
  "call_useDelayGroup c tooltipId = hook (CallUseDelayGroup c tooltipId) ()"

definition call_useTransitionStyles ::
  "hooks \<Rightarrow> floating_context \<Rightarrow> transition_options \<Rightarrow> (hook_call list, transition_result) state" where
  "call_useTransitionStyles h c t = hook (CallUseTransitionStyles c t) (useTransitionStyles h c t)"

text \<open>
  The outcome of a render that may throw: the error, or the rendered node with the
  log of the render.
\<close>

fun outcome :: "(error + 'a) \<times> hook_call list \<Rightarrow> error + 'a \<times> hook_call list" where
  "outcome (Inl e, calls) = Inl e"
| "outcome (Inr a, calls) = Inr (a, calls)"

section \<open>useTooltip (lines 25-91)\<close>

text \<open>
  The options object, destructured with defaults in lines 25-30: \<open>initialOpen\<close>
  and \<open>placement\<close> (a placement string when given) have defaults, \<open>open\<close> and
  \<open>onOpenChange\<close> are read as they come and may be \<open>undefined\<close> or \<open>null\<close>.
\<close>

record tooltip_options =
  opt_initialOpen :: "bool option"
  opt_placement :: "string option"
  opt_open :: "bool nullable"
  opt_onOpenChange :: "setter nullable"

text \<open>
  The object returned in lines 81-90, \<open>{open, setOpen, ...interactions, ...data, arrowRef}\<close>:
  the prop getters of \<open>interactions\<close> and the fields of \<open>data\<close> are spread into it;
  their keys are disjoint from each other and from \<open>open\<close>, \<open>setOpen\<close>, \<open>arrowRef\<close>,
  so each group is kept as one field.
\<close>

record tooltip =
  t_open :: bool
  t_setOpen :: setter
  t_interactions :: prop_getters
  t_data :: floating_data
  t_arrowRef :: ref

text \<open>
  \<open>useTooltip h options cell\<close>: \<open>cell\<close> is the \<open>useState\<close> cell of the component
  instance, and \<open>isOpen\<close> is the source's \<open>open\<close>. The result is the returned
  object and the log of the hooks called, in order.
  \<open>placement.includes('-')\<close> is the test that the string contains the character.
\<close>

definition useTooltip :: "hooks \<Rightarrow> tooltip_options \<Rightarrow> bool option \<Rightarrow> tooltip \<times> hook_call list" where
  "useTooltip h options cell =
     (let initialOpen = default_param (opt_initialOpen options) False;
          placement = default_param (opt_placement options) ''top'';
          controlledOpen = opt_open options;
          setControlledOpen = opt_onOpenChange options
      in run_state (do {
           delayGroup \<leftarrow> call_useDelayGroupContext h;
           let delay = dg_delay delayGroup;
           let isInstantPhase = dg_isInstantPhase delayGroup;
           (uncontrolledOpen, setUncontrolledOpen) \<leftarrow> call_useState cell initialOpen;
           arrowRef \<leftarrow> call_useRef;
           let isOpen = coalesce controlledOpen uncontrolledOpen;
           let setOpen = coalesce setControlledOpen setUncontrolledOpen;
           data \<leftarrow> call_useFloating h
             \<lparr>fo_placement = placement, fo_open = isOpen,
                fo_onOpenChange = setOpen, fo_whileElementsMounted = ''autoUpdate'',
                fo_middleware = [Offset 10, Inline, Flip ''start'' (CHR ''-'' \<in> set placement),
                  Shift 5, Arrow arrowRef 4]\<rparr>;
           let context = fd_context data;
           hover \<leftarrow> call_useHover h context
             \<lparr>ho_move = False, ho_enabled = nullish controlledOpen,
                ho_restMs = (if isInstantPhase then 0 else 150), ho_delay = delay\<rparr>;
           focus \<leftarrow> call_useFocus h context (nullish controlledOpen);
           dismiss \<leftarrow> call_useDismiss h context;
           role \<leftarrow> call_useRole h context ''tooltip'';
           interactions \<leftarrow> call_useInteractions h [hover, focus, dismiss, role];
           call_useMemo
             \<lparr>t_open = isOpen, t_setOpen = setOpen, t_interactions = interactions,
                t_data = data, t_arrowRef = arrowRef\<rparr>
         }) [])"

section \<open>TooltipContext, useTooltipContext and Tooltip (lines 93-116)\<close>

text \<open>
  \<open>TooltipContext = React.createContext(null)\<close> is private to the file, and its only
  provider is the one \<open>Tooltip\<close> renders. \<open>React.useContext\<close> gives the value of the
  nearest enclosing provider, and the default \<open>null\<close> when there is none; the
  enclosing providers' values are listed nearest first.
\<close>

fun useContext :: "tooltip list \<Rightarrow> tooltip nullable" where
  "useContext [] = Null"
| "useContext (t # ps) = Val t"

definition useTooltipContext :: "tooltip list \<Rightarrow> error + tooltip" where
  "useTooltipContext ps =
     (case useContext ps of
        Val context \<Rightarrow> Inr context
      | _ \<Rightarrow> Inl (Error ''Tooltip components must be wrapped in <Tooltip />''))"

text \<open>The call of \<open>useTooltipContext\<close> in a component, which is a call of \<open>React.useContext\<close>.\<close>

definition call_useTooltipContext :: "tooltip list \<Rightarrow> (hook_call list, error + tooltip) state" where
  "call_useTooltipContext ps = hook CallUseContext (useTooltipContext ps)"

record tooltip_props =
  tp_children :: node
  tp_options :: tooltip_options

datatype provider = Provider tooltip node

definition Tooltip :: "hooks \<Rightarrow> tooltip_props \<Rightarrow> bool option \<Rightarrow> provider \<times> hook_call list" where
  "Tooltip h props cell =
     (let (tooltip, calls) = useTooltip h (tp_options props) cell
      in (Provider tooltip (tp_children props), calls))"

text \<open>The providers that the children of a rendered \<open>Tooltip\<close> are evaluated under.\<close>

fun provided :: "provider \<Rightarrow> tooltip list \<Rightarrow> tooltip list" where
  "provided (Provider t ch) ps = t # ps"

section \<open>TooltipTrigger (lines 118-155)\<close>

record trigger_props =
  tg_children :: node
  tg_asChild :: "bool option"
  tg_props :: props

fun data_state :: "bool \<Rightarrow> prop_value" where
  "data_state True = VStr ''open''"
| "data_state False = VStr ''closed''"

definition TooltipTrigger ::
  "hooks \<Rightarrow> tooltip list \<Rightarrow> trigger_props \<Rightarrow> ref nullable \<Rightarrow> error + node \<times> hook_call list" where
  "TooltipTrigger h ps p propRef =
     (let children = tg_children p;
          asChild = default_param (tg_asChild p) False;
          props = tg_props p
      in outcome (run_state (do {
           found \<leftarrow> call_useTooltipContext ps;
           case found of
             Inl e \<Rightarrow> State_Monad.return (Inl e)
           | Inr context \<Rightarrow>
              (case children_ref children of
                 Inl e \<Rightarrow> State_Monad.return (Inl e)
               | Inr childrenRef \<Rightarrow> do {
                   ref \<leftarrow> call_useMergeRefs h
                     [Val (fd_setReference (t_data context)), propRef, childrenRef];
                   State_Monad.return (Inr
                     (if asChild \<and> isValidElement children
                      then cloneElement children
                        (getReferenceProps (t_interactions context)
                           (([''ref'' \<mapsto> VRef ref] ++ props ++ children_props children)
                              (''data-state'' \<mapsto> data_state (t_open context))))
                      else createElement ''button''
                        ([''ref'' \<mapsto> VRef ref, ''data-state'' \<mapsto> data_state (t_open context)]
                           ++ getReferenceProps (t_interactions context) props)
                        [children]))
                 })
         }) []))"

section \<open>TooltipContent (lines 157-219)\<close>

text \<open>
  \<open>props\<close> holds \<open>className\<close> (a string when given), \<open>style\<close> (an object when given)
  and whatever else the caller passes; \<open>props.children\<close> is kept apart, since the
  children written in the JSX replace any \<open>children\<close> prop of the spread.
\<close>

record content_props =
  cp_children :: node
  cp_props :: props

fun style_of :: "prop_value option \<Rightarrow> style" where
  "style_of (Some (VStyle m)) = m"
| "style_of v = Map.empty"

fun className_of :: "prop_value option \<Rightarrow> string option" where
  "className_of (Some (VStr c)) = Some c"
| "className_of v = None"

text \<open>The \<open>classnames\<close> package on strings: the non-empty arguments, joined by spaces.\<close>

fun classNames :: "string option list \<Rightarrow> string" where
  "classNames [] = []"
| "classNames (None # cs) = classNames cs"
| "classNames (Some c # cs) =
     (if c = [] then classNames cs
      else if classNames cs = [] then c
      else c @ '' '' @ classNames cs)"

text \<open>
  The second argument of \<open>useTransitionStyles\<close> (lines 176-184); the durations
  \<open>{open, close}\<close> are the two duration fields.
\<close>

definition transition_options_of :: "string \<Rightarrow> bool \<Rightarrow> string nullable \<Rightarrow> transition_options" where
  "transition_options_of tooltipId isInstantPhase currentId =
     \<lparr>to_duration_open = (if isInstantPhase then 100 else 300),
      to_duration_close =
        (if isInstantPhase then (if Val tooltipId = currentId then 150 else 50) else 150),
      to_initial = [''opacity'' \<mapsto> CssNum 0, ''transform'' \<mapsto> CssStr ''scale(0.95)'']\<rparr>"

text \<open>The object given as \<open>style\<close> to the floating element (lines 197-205).\<close>

definition content_style :: "tooltip \<Rightarrow> props \<Rightarrow> style \<Rightarrow> style" where
  "content_style context props styles =
     [''position'' \<mapsto> CssStr (fd_strategy (t_data context)),
      ''top'' \<mapsto> CssNum (of_int (Math_round (coalesce (fd_y (t_data context)) 0))),
      ''left'' \<mapsto> CssNum (of_int (Math_round (coalesce (fd_x (t_data context)) 0))),
      ''width'' \<mapsto> CssStr ''max-content'',
      ''maxWidth'' \<mapsto> CssStr ''min(calc(100vw - 10px), 25rem)'']
     ++ style_of (props ''style'') ++ styles"

definition TooltipContent ::
  "hooks \<Rightarrow> tooltip list \<Rightarrow> content_props \<Rightarrow> ref nullable \<Rightarrow> error + node \<times> hook_call list" where
  "TooltipContent h ps p propRef =
     (let props = cp_props p
      in outcome (run_state (do {
           found \<leftarrow> call_useTooltipContext ps;
           case found of
             Inl e \<Rightarrow> State_Monad.return (Inl e)
           | Inr context \<Rightarrow> do {
               let floatingContext = fd_context (t_data context);
               ref \<leftarrow> call_useMergeRefs h [Val (fd_setFloating (t_data context)), propRef];
               tooltipId \<leftarrow> call_useId h;
               delayGroup \<leftarrow> call_useDelayGroupContext h;
               let isInstantPhase = dg_isInstantPhase delayGroup;
               let currentId = dg_currentId delayGroup;
               call_useDelayGroup floatingContext tooltipId;
               transition \<leftarrow> call_useTransitionStyles h floatingContext
                 (transition_options_of tooltipId isInstantPhase currentId);
               let isMounted = tr_isMounted transition;
               let styles = tr_styles transition;
               let arrow = createElement ''FloatingArrow''
                 [''ref'' \<mapsto> VRef (Val (t_arrowRef context)),
                  ''context'' \<mapsto> VContext floatingContext,
                  ''className'' \<mapsto> VStr ''fill-gray-600'']
                 [];
               let floating = createElement ''div''
                 ([''ref'' \<mapsto> VRef ref,
                   ''className'' \<mapsto> VStr (classNames
                      [Some ''bg-gray-600 shadow-lg text-white'',
                       Some ''rounded p-2 text-sm pointer-events-none cursor-default'',
                       className_of (props ''className'')]),
                   ''style'' \<mapsto> VStyle (content_style context props styles)]
                  ++ getFloatingProps (t_interactions context) props)
                 [cp_children p, arrow];
               State_Monad.return (Inr
                 (createElement ''FloatingPortal'' [''id'' \<mapsto> VStr ''tooltip-portal'']
                    [if isMounted then floating else NFalse]))
             }
         }) []))"

text \<open>What a rendered element carries: its props, and the entries of its inline style.\<close>

fun props_of :: "node \<Rightarrow> props" where
  "props_of (NElement tag p r ch) = p"
| "props_of n = Map.empty"

definition inline_style :: "node \<Rightarrow> string \<Rightarrow> css_value option" where
  "inline_style n k = style_of (props_of n ''style'') k"

text \<open>
  The floating element of a rendered \<open>TooltipContent\<close>: the child of the portal,
  present when \<open>isMounted\<close> holds.
\<close>

fun floating_element :: "error + node \<times> hook_call list \<Rightarrow> node option" where
  "floating_element (Inr (NElement tag p r [NElement tag' p' r' ch'], calls)) =
     Some (NElement tag' p' r' ch')"
| "floating_element res = None"

section \<open>Reading the call log and the rendered output\<close>

text \<open>The \<open>enabled\<close> options of the useHover and useFocus calls of a log.\<close>

fun hover_enabled :: "hook_call list \<Rightarrow> bool list" where
  "hover_enabled [] = []"
| "hover_enabled (CallUseHover c ho # cs) = ho_enabled ho # hover_enabled cs"
| "hover_enabled (c # cs) = hover_enabled cs"

fun focus_enabled :: "hook_call list \<Rightarrow> bool list" where
  "focus_enabled [] = []"
| "focus_enabled (CallUseFocus c e # cs) = e # focus_enabled cs"
| "focus_enabled (c # cs) = focus_enabled cs"

text \<open>The node and the log of a render, and the floating element of a render.\<close>

fun rendered :: "error + node \<times> hook_call list \<Rightarrow> node" where
  "rendered (Inr (n, calls)) = n"
| "rendered (Inl e) = NNull"

fun calls_of :: "error + node \<times> hook_call list \<Rightarrow> hook_call list" where
  "calls_of (Inr (n, calls)) = calls"
| "calls_of (Inl e) = []"

fun rendered_floating :: "error + node \<times> hook_call list \<Rightarrow> node" where
  "rendered_floating res = (case floating_element res of Some n \<Rightarrow> n | None \<Rightarrow> NNull)"



section \<open>The hooks named by the specification\<close>



section \<open>A concrete environment\<close>

text \<open>
  A prop getter as the library's documentation has it (react.mdx, Prop getters): it
  returns its own props merged with the props it is given.
\<close>

definition merged_getter :: "props \<Rightarrow> props \<Rightarrow> props" where
  "merged_getter own user = own ++ user"

definition demo_getters :: prop_getters where
  "demo_getters =
     \<lparr>getReferenceProps = merged_getter
        [''aria-describedby'' \<mapsto> VStr '':r1:'', ''onMouseEnter'' \<mapsto> VHandler 1,
         ''onFocus'' \<mapsto> VHandler 2],
      getFloatingProps = merged_getter [''id'' \<mapsto> VStr '':r1:'', ''role'' \<mapsto> VStr ''tooltip''],
      getItemProps = merged_getter Map.empty\<rparr>"

definition demo_hooks :: "rat nullable \<Rightarrow> rat nullable \<Rightarrow> hooks" where
  "demo_hooks x y =
     \<lparr>useDelayGroupContext =
        \<lparr>dg_delay = DelayMs 0, dg_isInstantPhase = False, dg_currentId = Null\<rparr>,
      useFloating = (\<lambda>fo. \<lparr>fd_x = x, fd_y = y, fd_strategy = ''absolute'',
         fd_setReference = SetReference 0, fd_setFloating = SetFloating 0,
         fd_context = FloatingContext 0\<rparr>),
      useHover = (\<lambda>c ho. Interaction 1),
      useFocus = (\<lambda>c e. Interaction 2),
      useDismiss = (\<lambda>c. Interaction 3),
      useRole = (\<lambda>c r. Interaction 4),
      useInteractions = (\<lambda>is. demo_getters),
      useMergeRefs = (\<lambda>rs. Val (MergedRef 0)),
      useId = '':r2:'',
      useTransitionStyles = (\<lambda>c t. \<lparr>tr_isMounted = True,
         tr_styles = [''opacity'' \<mapsto> CssNum 1, ''transform'' \<mapsto> CssStr ''scale(1)'']\<rparr>)\<rparr>"

definition no_options :: tooltip_options where
  "no_options = \<lparr>opt_initialOpen = None, opt_placement = None, opt_open = Undefined,
     opt_onOpenChange = Undefined\<rparr>"

text \<open>\<open><Tooltip>Hello</Tooltip>\<close>.\<close>

definition demo_props :: tooltip_props where
  "demo_props = \<lparr>tp_children = NText ''Hello'', tp_options = no_options\<rparr>"

definition demo_tooltip :: tooltip where
  "demo_tooltip = fst (useTooltip (demo_hooks Null Null) no_options None)"

text \<open>\<open><Tooltip onOpenChange={f}>\<close>: a listener, and no \<open>open\<close> prop.\<close>

definition listener_options :: tooltip_options where
  "listener_options = no_options\<lparr>opt_onOpenChange := Val (Callback 0)\<rparr>"

text \<open>\<open><Tooltip open={true} onOpenChange={f}>\<close>.\<close>

definition controlled_options :: tooltip_options where
  "controlled_options = no_options\<lparr>opt_open := Val True, opt_onOpenChange := Val (Callback 0)\<rparr>"

text \<open>\<open><TooltipTrigger />\<close>, with no children.\<close>

definition empty_trigger :: trigger_props where
  "empty_trigger = \<lparr>tg_children = NUndefined, tg_asChild = None, tg_props = Map.empty\<rparr>"

text \<open>\<open><TooltipTrigger data-state="custom">Hover</TooltipTrigger>\<close>.\<close>

definition labelled_trigger :: trigger_props where
  "labelled_trigger = \<lparr>tg_children = NText ''Hover'', tg_asChild = None,
     tg_props = [''data-state'' \<mapsto> VStr ''custom'']\<rparr>"


definition coloured_content :: content_props where
  "coloured_content = \<lparr>cp_children = NText ''Hello'',
     cp_props = [''style'' \<mapsto> VStyle [''color'' \<mapsto> CssStr ''red'']]\<rparr>"

definition layered_content :: content_props where
  "layered_content = \<lparr>cp_children = NText ''Hello'',
     cp_props = [''style'' \<mapsto> VStyle [''zIndex'' \<mapsto> CssNum 10]]\<rparr>"


text \<open>The environment once the position has resolved to \<open>x = 12.5\<close>, \<open>y = -2.5\<close>.\<close>

definition positioned_hooks :: hooks where
  "positioned_hooks = demo_hooks (Val (25 / 2)) (Val (- 5 / 2))"

definition positioned_tooltip :: tooltip where
  "positioned_tooltip = fst (useTooltip positioned_hooks no_options None)"

text \<open>The context of a controlled tooltip that is open.\<close>

definition controlled_tooltip :: tooltip where
  "controlled_tooltip = fst (useTooltip (demo_hooks Null Null) controlled_options None)"

section \<open>The components, evaluated\<close>

text \<open>What the renders compute, with the monad of the log run.\<close>

lemmas call_defs = hook_def call_useDelayGroupContext_def call_useState_def call_useRef_def
  call_useFloating_def call_useHover_def call_useFocus_def call_useDismiss_def call_useRole_def
  call_useInteractions_def call_useMemo_def call_useMergeRefs_def call_useId_def
  call_useDelayGroup_def call_useTransitionStyles_def call_useTooltipContext_def

lemma useTooltip_eval:
  "useTooltip h options cell =
     (let initialOpen = default_param (opt_initialOpen options) False;
          placement = default_param (opt_placement options) ''top'';
          isOpen = coalesce (opt_open options) (useState cell initialOpen);
          setOpen = coalesce (opt_onOpenChange options) SetUncontrolledOpen;
          floatingOptions = \<lparr>fo_placement = placement, fo_open = isOpen,
             fo_onOpenChange = setOpen, fo_whileElementsMounted = ''autoUpdate'',
             fo_middleware = [Offset 10, Inline, Flip ''start'' (CHR ''-'' \<in> set placement),
               Shift 5, Arrow ArrowRef 4]\<rparr>;
          data = useFloating h floatingOptions;
          context = fd_context data;
          hoverOptions = \<lparr>ho_move = False, ho_enabled = nullish (opt_open options),
             ho_restMs = (if dg_isInstantPhase (useDelayGroupContext h) then 0 else 150),
             ho_delay = dg_delay (useDelayGroupContext h)\<rparr>;
          hover = useHover h context hoverOptions;
          focus = useFocus h context (nullish (opt_open options));
          dismiss = useDismiss h context;
          role = useRole h context ''tooltip''
      in (\<lparr>t_open = isOpen, t_setOpen = setOpen,
            t_interactions = useInteractions h [hover, focus, dismiss, role],
            t_data = data, t_arrowRef = ArrowRef\<rparr>,
          [CallUseDelayGroupContext, CallUseState initialOpen, CallUseRef,
           CallUseFloating floatingOptions, CallUseHover context hoverOptions,
           CallUseFocus context (nullish (opt_open options)), CallUseDismiss context,
           CallUseRole context ''tooltip'',
           CallUseInteractions [hover, focus, dismiss, role], CallUseMemo]))"
  by (simp add: useTooltip_def call_defs Let_def)

lemma TooltipTrigger_eval:
  "TooltipTrigger h ps p propRef =
     (case useTooltipContext ps of
        Inl e \<Rightarrow> Inl e
      | Inr context \<Rightarrow>
         (case children_ref (tg_children p) of
            Inl e \<Rightarrow> Inl e
          | Inr childrenRef \<Rightarrow>
             (let children = tg_children p;
                  asChild = default_param (tg_asChild p) False;
                  props = tg_props p;
                  refs = [Val (fd_setReference (t_data context)), propRef, childrenRef];
                  ref = useMergeRefs h refs;
                  calls = [CallUseContext, CallUseMergeRefs refs]
              in if asChild \<and> isValidElement children
                 then Inr (cloneElement children
                        (getReferenceProps (t_interactions context)
                           (([''ref'' \<mapsto> VRef ref] ++ props ++ children_props children)
                              (''data-state'' \<mapsto> data_state (t_open context)))),
                      calls)
                 else Inr (createElement ''button''
                        ([''ref'' \<mapsto> VRef ref, ''data-state'' \<mapsto> data_state (t_open context)]
                           ++ getReferenceProps (t_interactions context) props)
                        [children],
                      calls))))"
  by (auto simp add: TooltipTrigger_def call_defs Let_def split: sum.splits)

lemma TooltipContent_eval:
  "TooltipContent h ps p propRef =
     (case useTooltipContext ps of
        Inl e \<Rightarrow> Inl e
      | Inr context \<Rightarrow>
         (let props = cp_props p;
              floatingContext = fd_context (t_data context);
              refs = [Val (fd_setFloating (t_data context)), propRef];
              ref = useMergeRefs h refs;
              transitionOptions = transition_options_of (useId h)
                (dg_isInstantPhase (useDelayGroupContext h)) (dg_currentId (useDelayGroupContext h));
              transition = useTransitionStyles h floatingContext transitionOptions;
              arrow = createElement ''FloatingArrow''
                 [''ref'' \<mapsto> VRef (Val (t_arrowRef context)),
                  ''context'' \<mapsto> VContext floatingContext,
                  ''className'' \<mapsto> VStr ''fill-gray-600'']
                 [];
              floating = createElement ''div''
                 ([''ref'' \<mapsto> VRef ref,
                   ''className'' \<mapsto> VStr (classNames
                      [Some ''bg-gray-600 shadow-lg text-white'',
                       Some ''rounded p-2 text-sm pointer-events-none cursor-default'',
                       className_of (props ''className'')]),
                   ''style'' \<mapsto> VStyle (content_style context props (tr_styles transition))]
                  ++ getFloatingProps (t_interactions context) props)
                 [cp_children p, arrow]
          in Inr (createElement ''FloatingPortal'' [''id'' \<mapsto> VStr ''tooltip-portal'']
                    [if tr_isMounted transition then floating else NFalse],
                  [CallUseContext, CallUseMergeRefs refs, CallUseId,
                   CallUseDelayGroupContext, CallUseDelayGroup floatingContext (useId h),
                   CallUseTransitionStyles floatingContext transitionOptions])))"
  by (auto simp add: TooltipContent_def call_defs Let_def split: sum.splits)

section \<open>What useTooltip calls and returns\<close>



section \<open>What TooltipTrigger and TooltipContent call and render\<close>


lemma Tooltip_provides:
  "useContext (provided (fst (Tooltip h props cell)) ps) =
     Val (fst (useTooltip h (tp_options props) cell))"
  by (simp add: Tooltip_def split_def Let_def)

lemma TooltipTrigger_returns:
  assumes "tg_children p \<noteq> NUndefined" and "tg_children p \<noteq> NNull"
  shows "\<exists>n calls. TooltipTrigger h (t # ps) p propRef = Inr (n, calls)"
  using assms
  by (cases "tg_children p")
    (simp_all add: TooltipTrigger_eval useTooltipContext_def Let_def)





section \<open>The inline style of the floating element\<close>

text \<open>
  The element is given the style object of lines 197-205 and then the spread of
  \<open>getFloatingProps(props)\<close> (line 206): a \<open>style\<close> that the getter returns is the
  style of the element, and the object built before is dropped.
\<close>

lemma floating_element_style_from_getter:
  assumes "floating_element (TooltipContent h (t # ps) p propRef) = Some n"
    and "getFloatingProps (t_interactions t) (cp_props p) ''style'' = Some v"
  shows "props_of n ''style'' = Some v"
  using assms
  by (auto simp add: TooltipContent_eval useTooltipContext_def Let_def createElement_def
      map_add_def split: if_splits)

section \<open>Evaluating the concrete renders\<close>


lemma positioned_tooltip_eval:
  "positioned_tooltip = \<lparr>t_open = False, t_setOpen = SetUncontrolledOpen,
     t_interactions = demo_getters,
     t_data = \<lparr>fd_x = Val (25 / 2), fd_y = Val (- 5 / 2), fd_strategy = ''absolute'',
        fd_setReference = SetReference 0, fd_setFloating = SetFloating 0,
        fd_context = FloatingContext 0\<rparr>,
     t_arrowRef = ArrowRef\<rparr>"
  by (simp add: positioned_tooltip_def positioned_hooks_def useTooltip_eval Let_def
      demo_hooks_def no_options_def)

lemma controlled_tooltip_eval:
  "controlled_tooltip = \<lparr>t_open = True, t_setOpen = Callback 0,
     t_interactions = demo_getters,
     t_data = \<lparr>fd_x = Null, fd_y = Null, fd_strategy = ''absolute'',
        fd_setReference = SetReference 0, fd_setFloating = SetFloating 0,
        fd_context = FloatingContext 0\<rparr>,
     t_arrowRef = ArrowRef\<rparr>"
  by (simp add: controlled_tooltip_def useTooltip_eval Let_def
      demo_hooks_def controlled_options_def no_options_def)




section \<open>The claims\<close>

subsection \<open>C1: the guard of useTooltipContext\<close>

text \<open>
  Claim C1. \<open>useTooltipContext\<close> throws the Error
  \<open>Tooltip components must be wrapped in <Tooltip />\<close> exactly when the value read
  from \<open>TooltipContext\<close> is \<open>null\<close>, and returns every other context value
  unchanged. The value read is the default \<open>null\<close> or the object a \<open>Tooltip\<close>
  provides, so it is never \<open>undefined\<close>.
\<close>

theorem useTooltipContext_throws_iff_null:
  "(useTooltipContext ps = Inl (Error ''Tooltip components must be wrapped in <Tooltip />''))
     = (useContext ps = Null)
   \<and> ((\<exists>e. useTooltipContext ps = Inl e) = (useContext ps = Null))
   \<and> (useContext ps \<noteq> Null \<longrightarrow>
        (\<exists>context. useContext ps = Val context \<and> useTooltipContext ps = Inr context))"
  by (cases ps) (simp_all add: useTooltipContext_def)

text \<open>
  Outside every \<open>Tooltip\<close> the hook throws; under one it returns the provided
  object.
\<close>

theorem useTooltipContext_throws_iff_null_witness:
  "useContext (provided (fst (Tooltip (demo_hooks Null Null) demo_props None)) []) \<noteq> Null
   \<and> useTooltipContext (provided (fst (Tooltip (demo_hooks Null Null) demo_props None)) [])
       = Inr demo_tooltip
   \<and> useContext [] = Null
   \<and> useTooltipContext [] = Inl (Error ''Tooltip components must be wrapped in <Tooltip />'')"
  using useTooltipContext_throws_iff_null
      [of "provided (fst (Tooltip (demo_hooks Null Null) demo_props None)) []"]
    useTooltipContext_throws_iff_null [of "[]"]
    Tooltip_provides [of "demo_hooks Null Null" demo_props None "[]"]
  by (simp add: demo_tooltip_def demo_props_def)

subsection \<open>C3: the hooks that are wired together\<close>




subsection \<open>C4: failures other than the guard\<close>

text \<open>
  Claim C4 says that, with a context value that is not \<open>null\<close>, no component
  raises an error. \<open>TooltipTrigger\<close> reads \<open>children.ref\<close> in line 124 before
  it looks at what \<open>children\<close> is, so \<open><TooltipTrigger />\<close> without children
  raises a TypeError under a \<open>Tooltip\<close>. With children that are neither
  \<open>undefined\<close> nor \<open>null\<close> it returns, as \<open>TooltipContent\<close> always does
  under a \<open>Tooltip\<close>.
\<close>

theorem TooltipTrigger_without_children_raises:
  "useContext [demo_tooltip] \<noteq> Null
   \<and> TooltipTrigger (demo_hooks Null Null) [demo_tooltip] empty_trigger Null =
       Inl (TypeError ''Cannot read properties of undefined (reading ref)'')"
  by (simp add: TooltipTrigger_eval useTooltipContext_def empty_trigger_def)

subsection \<open>C5: position of the floating element\<close>

text \<open>
  Claim C5 says that the position of the rendered floating element is exactly the
  strategy that useFloating returned, and that its top and left depend on the
  coordinates only. Line 203 merges \<open>props.style\<close> into the style object that holds
  them, but line 206 spreads \<open>getFloatingProps(props)\<close> after \<open>style\<close>, and the
  getter hands the caller's \<open>style\<close> back: for
  \<open><TooltipContent style={{color: 'red'}}>\<close> the object built has the
  position \<open>absolute\<close> of the strategy, and the element rendered has no position at
  all.
\<close>

theorem TooltipContent_style_prop_drops_position:
  "fd_strategy (t_data positioned_tooltip) = ''absolute''
   \<and> content_style positioned_tooltip (cp_props coloured_content)
        (tr_styles (useTransitionStyles positioned_hooks
           (fd_context (t_data positioned_tooltip))
           (transition_options_of (useId positioned_hooks)
              (dg_isInstantPhase (useDelayGroupContext positioned_hooks))
              (dg_currentId (useDelayGroupContext positioned_hooks)))))
        ''position'' = Some (CssStr ''absolute'')
   \<and> floating_element (TooltipContent positioned_hooks [positioned_tooltip] coloured_content Null)
       \<noteq> None
   \<and> inline_style
       (rendered_floating
          (TooltipContent positioned_hooks [positioned_tooltip] coloured_content Null))
       ''color'' = Some (CssStr ''red'')
   \<and> inline_style
       (rendered_floating
          (TooltipContent positioned_hooks [positioned_tooltip] coloured_content Null))
       ''position'' = None"
  by (simp add: positioned_tooltip_eval TooltipContent_eval useTooltipContext_def Let_def
      createElement_def positioned_hooks_def demo_hooks_def coloured_content_def
      demo_getters_def merged_getter_def inline_style_def content_style_def map_add_def)

subsection \<open>C6: controlled and uncontrolled state\<close>

text \<open>
  Claim C6, as amended. useHover and useFocus are enabled exactly when the \<open>open\<close>
  option is \<open>null\<close> or \<open>undefined\<close>. The returned \<open>open\<close> is the \<open>open\<close>
  option when that is given, and the \<open>useState\<close> value otherwise, seeded on the first
  render with \<open>initialOpen\<close> (default \<open>false\<close>). Independently of \<open>open\<close>, the
  returned \<open>setOpen\<close> is \<open>onOpenChange\<close> when that is given, and the
  \<open>useState\<close> setter otherwise.
\<close>

theorem useTooltip_open_and_setOpen:
  "hover_enabled (snd (useTooltip h options cell)) = [nullish (opt_open options)]
   \<and> focus_enabled (snd (useTooltip h options cell)) = [nullish (opt_open options)]
   \<and> t_open (fst (useTooltip h options cell)) =
       coalesce (opt_open options)
         (useState cell (default_param (opt_initialOpen options) False))
   \<and> t_setOpen (fst (useTooltip h options cell)) =
       coalesce (opt_onOpenChange options) SetUncontrolledOpen
   \<and> (\<forall>b. opt_open options = Val b \<longrightarrow> t_open (fst (useTooltip h options cell)) = b)
   \<and> (nullish (opt_open options) \<and> cell = None \<longrightarrow>
        t_open (fst (useTooltip h options cell)) =
          (case opt_initialOpen options of None \<Rightarrow> False | Some b \<Rightarrow> b))
   \<and> (\<forall>v. nullish (opt_open options) \<and> cell = Some v \<longrightarrow>
        t_open (fst (useTooltip h options cell)) = v)
   \<and> (\<forall>f. opt_onOpenChange options = Val f \<longrightarrow>
        t_setOpen (fst (useTooltip h options cell)) = f)
   \<and> (nullish (opt_onOpenChange options) \<longrightarrow>
        t_setOpen (fst (useTooltip h options cell)) = SetUncontrolledOpen)"
  by (cases "opt_open options"; cases "opt_onOpenChange options"; cases "opt_initialOpen options")
     (simp_all add: useTooltip_eval Let_def)

text \<open>
  A controlled tooltip with a listener, and a tooltip without options on its first
  render and on a later one.
\<close>

theorem useTooltip_open_and_setOpen_witness:
  "opt_open controlled_options = Val True
   \<and> opt_onOpenChange controlled_options = Val (Callback 0)
   \<and> hover_enabled (snd (useTooltip (demo_hooks Null Null) controlled_options None)) = [False]
   \<and> focus_enabled (snd (useTooltip (demo_hooks Null Null) controlled_options None)) = [False]
   \<and> t_open (fst (useTooltip (demo_hooks Null Null) controlled_options None)) = True
   \<and> t_setOpen (fst (useTooltip (demo_hooks Null Null) controlled_options None)) = Callback 0
   \<and> nullish (opt_open no_options) \<and> nullish (opt_onOpenChange no_options)
   \<and> hover_enabled (snd (useTooltip (demo_hooks Null Null) no_options None)) = [True]
   \<and> focus_enabled (snd (useTooltip (demo_hooks Null Null) no_options None)) = [True]
   \<and> t_open (fst (useTooltip (demo_hooks Null Null) no_options None)) = False
   \<and> t_open (fst (useTooltip (demo_hooks Null Null) no_options (Some True))) = True
   \<and> t_setOpen (fst (useTooltip (demo_hooks Null Null) no_options None)) = SetUncontrolledOpen"
  using useTooltip_open_and_setOpen [of "demo_hooks Null Null" controlled_options None]
    useTooltip_open_and_setOpen [of "demo_hooks Null Null" no_options None]
    useTooltip_open_and_setOpen [of "demo_hooks Null Null" no_options "Some True"]
  by (simp add: controlled_options_def no_options_def)

text \<open>
  The claim as first stated fails for \<open><Tooltip onOpenChange={f}>\<close>: the tooltip
  is uncontrolled, and the returned \<open>setOpen\<close> is \<open>f\<close>, not the setter of the
  \<open>useState\<close> pair.
\<close>

theorem useTooltip_listener_replaces_setter:
  "nullish (opt_open listener_options)
   \<and> t_setOpen (fst (useTooltip (demo_hooks Null Null) listener_options None)) \<noteq> SetUncontrolledOpen
   \<and> t_setOpen (fst (useTooltip (demo_hooks Null Null) listener_options None)) = Callback 0"
  by (simp add: useTooltip_eval Let_def listener_options_def no_options_def)

subsection \<open>C7: the data-state of the trigger\<close>

text \<open>
  Claim C7 says that the rendered trigger carries \<open>data-state\<close> \<open>open\<close> or
  \<open>closed\<close> in both branches. The \<open>asChild\<close> branch writes \<open>data-state\<close> last
  (line 139); the button branch writes it before the spread of
  \<open>getReferenceProps(props)\<close> (lines 148-149), so
  \<open><TooltipTrigger data-state="custom">\<close> under an open tooltip renders
  a button whose \<open>data-state\<close> is \<open>custom\<close>.
\<close>

theorem TooltipTrigger_button_data_state_overridden:
  "t_open controlled_tooltip
   \<and> TooltipTrigger (demo_hooks Null Null) [controlled_tooltip] labelled_trigger Null =
       Inr (rendered (TooltipTrigger (demo_hooks Null Null) [controlled_tooltip]
              labelled_trigger Null),
            calls_of (TooltipTrigger (demo_hooks Null Null) [controlled_tooltip]
              labelled_trigger Null))
   \<and> props_of (rendered (TooltipTrigger (demo_hooks Null Null) [controlled_tooltip]
        labelled_trigger Null)) ''data-state'' = Some (VStr ''custom'')"
  by (simp add: controlled_tooltip_eval TooltipTrigger_eval useTooltipContext_def Let_def
      labelled_trigger_def demo_hooks_def
      demo_getters_def merged_getter_def createElement_def map_add_def)

subsection \<open>C8: rounded coordinates\<close>

text \<open>
  Claim C8 says that the inline top and left of the mounted floating element are the
  integers \<open>Math.round(y)\<close> and \<open>Math.round(x)\<close>. By the spread of line 206 they
  are lost as soon as the caller passes a \<open>style\<close>: at \<open>x = 12.5\<close>,
  \<open>y = -2.5\<close> and \<open><TooltipContent style={{zIndex: 10}}>\<close> the object
  built has \<open>top = -2\<close> and \<open>left = 13\<close>, and the element rendered has neither.
\<close>

theorem TooltipContent_style_prop_drops_top_left:
  "fd_y (t_data positioned_tooltip) = Val (- 5 / 2)
   \<and> fd_x (t_data positioned_tooltip) = Val (25 / 2)
   \<and> Math_round (- 5 / 2) = - 2 \<and> Math_round (25 / 2) = 13
   \<and> content_style positioned_tooltip (cp_props layered_content)
        (tr_styles (useTransitionStyles positioned_hooks
           (fd_context (t_data positioned_tooltip))
           (transition_options_of (useId positioned_hooks)
              (dg_isInstantPhase (useDelayGroupContext positioned_hooks))
              (dg_currentId (useDelayGroupContext positioned_hooks)))))
        ''top'' = Some (CssNum (- 2))
   \<and> floating_element (TooltipContent positioned_hooks [positioned_tooltip] layered_content Null)
       \<noteq> None
   \<and> inline_style
       (rendered_floating
          (TooltipContent positioned_hooks [positioned_tooltip] layered_content Null))
       ''zIndex'' = Some (CssNum 10)
   \<and> inline_style
       (rendered_floating
          (TooltipContent positioned_hooks [positioned_tooltip] layered_content Null))
       ''top'' = None
   \<and> inline_style
       (rendered_floating
          (TooltipContent positioned_hooks [positioned_tooltip] layered_content Null))
       ''left'' = None"
proof -
  have round: "Math_round (- 5 / 2) = - 2" "Math_round (25 / 2) = 13"
    by (simp_all add: Math_round_def floor_eq_iff)
  then show ?thesis
    by (simp add: positioned_tooltip_eval TooltipContent_eval useTooltipContext_def Let_def
      createElement_def positioned_hooks_def demo_hooks_def layered_content_def
      demo_getters_def merged_getter_def inline_style_def content_style_def map_add_def)
qed

end
